theory Spec2Isabelle
  imports Complex_Main
begin

section \<open>The Picture widget (src/TGUI/Picture.cpp)\<close>

text \<open>
  \<^verbatim>\<open>Picture\<close> is a leaf widget that shows one texture. Its member functions mutate the
  widget itself, the texture data that the widget's \<^verbatim>\<open>m_texture\<close> points to, the global
  texture manager and the diagnostic stream written by \<^verbatim>\<open>TGUI_OUTPUT\<close>. The model passes
  two states explicitly: the widget (a record of its members) and the world (everything
  global).

  C++ \<^verbatim>\<open>float\<close> values are represented by \<^typ>\<open>real\<close>. Whatever the code computes
  with them goes through functions of the environment, so that no rounding or overflow
  behaviour is presupposed: the conversion of an \<^verbatim>\<open>unsigned int\<close> (a texture dimension) to
  \<^verbatim>\<open>float\<close>, which rounds above \<open>2 ^ 24\<close>, and the subtraction, the division and the
  conversion to \<^verbatim>\<open>unsigned int\<close> of the hit test.
\<close>

subsection \<open>Data\<close>

type_synonym addr = nat

text \<open>The part of \<^verbatim>\<open>sf::Texture\<close> that Picture reaches through
  \<^verbatim>\<open>m_texture.getData()->texture\<close>: the smooth flag with its setter and getter.\<close>

record sf_Texture =
  smooth :: bool

record TextureData =
  texture :: sf_Texture

text \<open>Global state. \<^verbatim>\<open>textureManager\<close> is the private state of \<^verbatim>\<open>TGUI_TextureManager\<close>
  (its class is not among the sources, so its type is left open); \<^verbatim>\<open>textureData\<close> is the
  store of \<^verbatim>\<open>TextureData\<close> objects that a \<^verbatim>\<open>Texture::getData()\<close> pointer may refer to;
  \<^verbatim>\<open>resourcePath\<close> is what \<^verbatim>\<open>getResourcePath()\<close> returns; \<^verbatim>\<open>outputLog\<close> collects the lines
  passed to \<^verbatim>\<open>TGUI_OUTPUT\<close>, oldest first.\<close>

record 'tm world =
  textureManager :: 'tm
  textureData :: "addr \<rightharpoonup> TextureData"
  resourcePath :: string
  outputLog :: "string list"

text \<open>The members of a Picture that Picture.cpp reads or writes. \<^verbatim>\<open>m_loaded\<close>,
  \<^verbatim>\<open>m_size\<close> and \<^verbatim>\<open>m_mouseHover\<close> are inherited; \<^verbatim>\<open>m_loadedFilename\<close> and \<^verbatim>\<open>m_texture\<close>
  are Picture's own. \<^verbatim>\<open>inherited\<close> stands for the rest of the base-class state
  (the \<^verbatim>\<open>sf::Transformable\<close> part, callbacks, opacity). The class \<^verbatim>\<open>Texture\<close> is not among
  the sources: its objects are values of the open type \<open>'tex\<close>.\<close>

record ('tex, 'b) Picture =
  m_loaded :: bool
  m_size :: "real \<times> real"
  m_mouseHover :: bool
  m_loadedFilename :: string
  m_texture :: 'tex
  inherited :: 'b

text \<open>Dereferencing a null (or dangling) \<^verbatim>\<open>TextureData\<close> pointer is undefined behaviour in
  the source; the model makes it an error value.\<close>

datatype error = NullPointerDereference

subsection \<open>The environment\<close>

text \<open>
  Functions that Picture.cpp calls and whose bodies are not part of the sources are
  parameters of the model, collected in one record:
  \<^item> methods of \<^verbatim>\<open>Texture\<close>: \<^verbatim>\<open>getData\<close> (\<open>None\<close> for \<^verbatim>\<open>nullptr\<close>), \<^verbatim>\<open>getSize\<close>,
    \<^verbatim>\<open>setSize\<close>, \<^verbatim>\<open>isTransparentPixel\<close>;
  \<^item> methods of the texture manager: \<^verbatim>\<open>getTexture\<close> and \<^verbatim>\<open>removeTexture\<close>, which take the
    \<^verbatim>\<open>Texture\<close> by reference and therefore return the updated object together with the
    updated world;
  \<^item> \<^verbatim>\<open>toLower\<close>;
  \<^item> what the hit test needs from the base classes: whether
    \<^verbatim>\<open>getTransform().transformRect(sf::FloatRect(0, 0, w, h)).contains(x, y)\<close> holds,
    \<^verbatim>\<open>getPosition()\<close>, \<^verbatim>\<open>mouseLeftWidget()\<close>;
  \<^item> the conversion of an \<^verbatim>\<open>unsigned int\<close> to \<^verbatim>\<open>float\<close> (\<^verbatim>\<open>static_cast<float>\<close> in
    \<^verbatim>\<open>load\<close>, implicit in the divisions of the hit test), \<^verbatim>\<open>float\<close> subtraction and
    division, and the conversion \<^verbatim>\<open>static_cast<unsigned int>\<close> of a \<^verbatim>\<open>float\<close>;
  \<^item> \<^verbatim>\<open>ClickableWidget::setProperty\<close> and \<^verbatim>\<open>ClickableWidget::getProperty\<close> (the latter
    receives the caller's \<^verbatim>\<open>value\<close> and returns the possibly updated one).
\<close>

record ('tex, 'b, 'tm) externals =
  Texture_getData :: "'tex \<Rightarrow> addr option"
  Texture_getSize :: "'tm world \<Rightarrow> 'tex \<Rightarrow> nat \<times> nat"
  Texture_setSize :: "'tex \<Rightarrow> real \<Rightarrow> real \<Rightarrow> 'tex"
  Texture_isTransparentPixel :: "'tm world \<Rightarrow> 'tex \<Rightarrow> nat \<Rightarrow> nat \<Rightarrow> bool"
  TextureManager_getTexture :: "'tm world \<Rightarrow> 'tex \<Rightarrow> string \<Rightarrow> bool \<times> 'tex \<times> 'tm world"
  TextureManager_removeTexture :: "'tm world \<Rightarrow> 'tex \<Rightarrow> 'tex \<times> 'tm world"
  toLower :: "string \<Rightarrow> string"
  transformRect_contains :: "'b \<Rightarrow> real \<times> real \<Rightarrow> real \<Rightarrow> real \<Rightarrow> bool"
  getPosition :: "'b \<Rightarrow> real \<times> real"
  mouseLeftWidget :: "('tex, 'b) Picture \<Rightarrow> 'tm world \<Rightarrow> ('tex, 'b) Picture \<times> 'tm world"
  unsigned_to_float :: "nat \<Rightarrow> real"
  float_sub :: "real \<Rightarrow> real \<Rightarrow> real"
  float_div :: "real \<Rightarrow> real \<Rightarrow> real"
  float_to_unsigned :: "real \<Rightarrow> nat"
  ClickableWidget_setProperty ::
    "string \<Rightarrow> string \<Rightarrow> ('tex, 'b) Picture \<Rightarrow> 'tm world \<Rightarrow> bool \<times> ('tex, 'b) Picture \<times> 'tm world"
  ClickableWidget_getProperty ::
    "string \<Rightarrow> string \<Rightarrow> ('tex, 'b) Picture \<Rightarrow> 'tm world \<Rightarrow> bool \<times> string \<times> 'tm world"

subsection \<open>Member functions\<close>

text \<open>\<^verbatim>\<open>TGUI_OUTPUT(msg)\<close>: one more line on the diagnostic stream.\<close>

definition TGUI_OUTPUT :: "string \<Rightarrow> 'tm world \<Rightarrow> 'tm world" where
  "TGUI_OUTPUT msg w = w\<lparr>outputLog := outputLog w @ [msg]\<rparr>"

definition setSize_warning :: string where
  "setSize_warning = ''TGUI warning: Picture::setSize called while Picture wasn't loaded yet.''"

definition setSmooth_warning :: string where
  "setSmooth_warning = ''TGUI warning: Picture::setSmooth called while Picture wasn't loaded yet.''"

definition isSmooth_warning :: string where
  "isSmooth_warning = ''TGUI warning: Picture::isSmooth called while Picture wasn't loaded yet.''"

definition smooth_parse_error :: string where
  "smooth_parse_error = ''TGUI error: Failed to parse 'Smooth' property.''"

text \<open>\<^verbatim>\<open>Picture::setSize\<close> (l. 133-142): the size is stored first, in either case; the
  texture is resized only when the picture is loaded, otherwise a warning is written.\<close>

definition setSize ::
  "('tex, 'b, 'tm) externals \<Rightarrow> real \<Rightarrow> real \<Rightarrow> ('tex, 'b) Picture \<Rightarrow> 'tm world
     \<Rightarrow> ('tex, 'b) Picture \<times> 'tm world" where
  "setSize ext width height p w =
     (let p1 = p\<lparr>m_size := (width, height)\<rparr> in
      if m_loaded p1
      then (p1\<lparr>m_texture := Texture_setSize ext (m_texture p1) width height\<rparr>, w)
      else (p1, TGUI_OUTPUT setSize_warning w))"

text \<open>\<^verbatim>\<open>Picture::load\<close> (l. 84-113). The texture manager takes \<^verbatim>\<open>m_texture\<close> by
  reference: \<^verbatim>\<open>removeTexture\<close> (called when a texture is still held) and \<^verbatim>\<open>getTexture\<close>
  each return the object as they leave it. The result is the returned \<^verbatim>\<open>bool\<close> with the
  widget and the world after the call.\<close>

definition load ::
  "('tex, 'b, 'tm) externals \<Rightarrow> string \<Rightarrow> ('tex, 'b) Picture \<Rightarrow> 'tm world
     \<Rightarrow> bool \<times> ('tex, 'b) Picture \<times> 'tm world" where
  "load ext filename p w =
     (let p1 = p\<lparr>m_loaded := False, m_size := (0, 0)\<rparr> in
      if filename = [] then (False, p1, w)
      else
        let p2 = p1\<lparr>m_loadedFilename := resourcePath w @ filename\<rparr> in
        case (if Texture_getData ext (m_texture p2) \<noteq> None
              then TextureManager_removeTexture ext w (m_texture p2)
              else (m_texture p2, w)) of
          (t1, w1) \<Rightarrow>
            (case TextureManager_getTexture ext w1 t1 (m_loadedFilename p2) of
               (True, t, w2) \<Rightarrow>
                 (let p3 = p2\<lparr>m_texture := t, m_loaded := True\<rparr>;
                      sz = Texture_getSize ext w2 (m_texture p3)
                  in case setSize ext (unsigned_to_float ext (fst sz))
                            (unsigned_to_float ext (snd sz)) p3 w2 of
                       (p4, w3) \<Rightarrow> (True, p4, w3))
             | (False, t, w2) \<Rightarrow> (False, p2\<lparr>m_texture := t\<rparr>, w2)))"

text \<open>\<^verbatim>\<open>Picture::getLoadedFilename\<close> (l. 117-120).\<close>

definition getLoadedFilename :: "('tex, 'b) Picture \<Rightarrow> string" where
  "getLoadedFilename p = m_loadedFilename p"

text \<open>\<^verbatim>\<open>m_texture.getData()->texture\<close>: the pointer is followed into the store.\<close>

definition deref_data ::
  "('tex, 'b, 'tm) externals \<Rightarrow> ('tex, 'b) Picture \<Rightarrow> 'tm world \<Rightarrow> error + addr \<times> TextureData" where
  "deref_data ext p w =
     (case Texture_getData ext (m_texture p) of
        None \<Rightarrow> Inl NullPointerDereference
      | Some a \<Rightarrow>
          (case textureData w a of
             None \<Rightarrow> Inl NullPointerDereference
           | Some d \<Rightarrow> Inr (a, d)))"

text \<open>\<^verbatim>\<open>Picture::setSmooth\<close> (l. 146-152). The widget itself is not written to; the flag
  lives in the texture data.\<close>

definition setSmooth ::
  "('tex, 'b, 'tm) externals \<Rightarrow> bool \<Rightarrow> ('tex, 'b) Picture \<Rightarrow> 'tm world \<Rightarrow> error + 'tm world" where
  "setSmooth ext s p w =
     (if m_loaded p
      then (case deref_data ext p w of
              Inl e \<Rightarrow> Inl e
            | Inr (a, d) \<Rightarrow>
                Inr (w\<lparr>textureData := (textureData w)(a \<mapsto> d\<lparr>texture := (texture d)\<lparr>smooth := s\<rparr>\<rparr>)\<rparr>))
      else Inr (TGUI_OUTPUT setSmooth_warning w))"

text \<open>\<^verbatim>\<open>Picture::isSmooth\<close> (l. 156-165).\<close>

definition isSmooth ::
  "('tex, 'b, 'tm) externals \<Rightarrow> ('tex, 'b) Picture \<Rightarrow> 'tm world \<Rightarrow> error + bool \<times> 'tm world" where
  "isSmooth ext p w =
     (if m_loaded p
      then (case deref_data ext p w of
              Inl e \<Rightarrow> Inl e
            | Inr (a, d) \<Rightarrow> Inr (smooth (texture d), w))
      else Inr (False, TGUI_OUTPUT isSmooth_warning w))"

text \<open>\<^verbatim>\<open>Picture::mouseOnWidget\<close> (l. 178-201).\<close>

definition mouseOnWidget ::
  "('tex, 'b, 'tm) externals \<Rightarrow> real \<Rightarrow> real \<Rightarrow> ('tex, 'b) Picture \<Rightarrow> 'tm world
     \<Rightarrow> bool \<times> ('tex, 'b) Picture \<times> 'tm world" where
  "mouseOnWidget ext x y p w =
     (if m_loaded p = False then (False, p, w)
      else
        let hit =
          (if transformRect_contains ext (inherited p) (m_size p) x y
           then
             (let scaling_x = float_div ext (fst (m_size p))
                                (unsigned_to_float ext (fst (Texture_getSize ext w (m_texture p))));
                  scaling_y = float_div ext (snd (m_size p))
                                (unsigned_to_float ext (snd (Texture_getSize ext w (m_texture p))))
              in \<not> Texture_isTransparentPixel ext w (m_texture p)
                     (float_to_unsigned ext
                        (float_div ext (float_sub ext x (fst (getPosition ext (inherited p)))) scaling_x))
                     (float_to_unsigned ext
                        (float_div ext (float_sub ext y (snd (getPosition ext (inherited p)))) scaling_y)))
           else False)
        in
          if hit then (True, p, w)
          else
            (let (p1, w1) = (if m_mouseHover p = True then mouseLeftWidget ext p w else (p, w))
             in (False, p1\<lparr>m_mouseHover := False\<rparr>, w1)))"

text \<open>\<^verbatim>\<open>Picture::setProperty\<close> (l. 205-227). The result of \<^verbatim>\<open>load\<close> is discarded; every
  path through the two matching branches ends at the final \<^verbatim>\<open>return true\<close>.\<close>

definition setProperty ::
  "('tex, 'b, 'tm) externals \<Rightarrow> string \<Rightarrow> string \<Rightarrow> ('tex, 'b) Picture \<Rightarrow> 'tm world
     \<Rightarrow> error + bool \<times> ('tex, 'b) Picture \<times> 'tm world" where
  "setProperty ext property value p w =
     (let property = toLower ext property in
      if property = ''filename''
      then (case load ext value p w of (_, p1, w1) \<Rightarrow> Inr (True, p1, w1))
      else if property = ''smooth''
      then
        (if value = ''true'' \<or> value = ''True''
         then (case setSmooth ext True p w of Inl e \<Rightarrow> Inl e | Inr w1 \<Rightarrow> Inr (True, p, w1))
         else if value = ''false'' \<or> value = ''False''
         then (case setSmooth ext False p w of Inl e \<Rightarrow> Inl e | Inr w1 \<Rightarrow> Inr (True, p, w1))
         else Inr (True, p, TGUI_OUTPUT smooth_parse_error w))
      else Inr (ClickableWidget_setProperty ext property value p w))"

text \<open>\<^verbatim>\<open>Picture::getProperty\<close> (l. 231-244). \<open>value\<close> is the caller's string, which the
  function overwrites when the property matches; the result carries its new contents.\<close>

definition getProperty ::
  "('tex, 'b, 'tm) externals \<Rightarrow> string \<Rightarrow> string \<Rightarrow> ('tex, 'b) Picture \<Rightarrow> 'tm world
     \<Rightarrow> error + bool \<times> string \<times> 'tm world" where
  "getProperty ext property value p w =
     (let property = toLower ext property in
      if property = ''filename'' then Inr (True, getLoadedFilename p, w)
      else if property = ''smooth''
      then (case isSmooth ext p w of
              Inl e \<Rightarrow> Inl e
            | Inr (b, w1) \<Rightarrow> Inr (True, if b then ''true'' else ''false'', w1))
      else Inr (ClickableWidget_getProperty ext property value p w))"

subsection \<open>A concrete environment\<close>

text \<open>
  To run the model on explicit inputs, the parameters are instantiated as follows. A
  \<^verbatim>\<open>Texture\<close> is its data pointer paired with the size of its image. The texture manager
  knows a table of image files (path, address of the texture data, width, height):
  \<^verbatim>\<open>getTexture\<close> succeeds on the paths of the table and creates the texture data (not
  smooth) at the address given there; \<^verbatim>\<open>removeTexture\<close> deletes the texture data and
  nulls the pointer. The widget's transform is the identity, no pixel is transparent,
  the base class knows no property, and \<^verbatim>\<open>toLower\<close> lower-cases the ASCII letters. The
  arithmetic is that of the real numbers; the image dimensions of this environment are
  small, so that their conversion to \<^verbatim>\<open>float\<close> is exact.
\<close>

definition ascii_lower :: "char \<Rightarrow> char" where
  "ascii_lower c =
     (case map_of (zip ''ABCDEFGHIJKLMNOPQRSTUVWXYZ'' ''abcdefghijklmnopqrstuvwxyz'') c of
        None \<Rightarrow> c
      | Some d \<Rightarrow> d)"

type_synonym demo_texture = "addr option \<times> nat \<times> nat"

type_synonym demo_manager = "(string \<times> addr \<times> nat \<times> nat) list"

definition demo_getTexture ::
  "demo_manager world \<Rightarrow> demo_texture \<Rightarrow> string \<Rightarrow> bool \<times> demo_texture \<times> demo_manager world" where
  "demo_getTexture w t name =
     (case map_of (textureManager w) name of
        None \<Rightarrow> (False, (None, 0, 0), w)
      | Some (a, sz) \<Rightarrow>
          (True, (Some a, sz),
           w\<lparr>textureData := (textureData w)(a \<mapsto> \<lparr>texture = \<lparr>smooth = False\<rparr>\<rparr>)\<rparr>))"

definition demo_removeTexture ::
  "demo_manager world \<Rightarrow> demo_texture \<Rightarrow> demo_texture \<times> demo_manager world" where
  "demo_removeTexture w t =
     ((None, 0, 0),
      (case fst t of
         None \<Rightarrow> w
       | Some a \<Rightarrow> w\<lparr>textureData := (textureData w)(a := None)\<rparr>))"

definition demo_ext :: "(demo_texture, unit, demo_manager) externals" where
  "demo_ext =
     \<lparr>Texture_getData = fst,
      Texture_getSize = (\<lambda>w t. snd t),
      Texture_setSize = (\<lambda>t width height. t),
      Texture_isTransparentPixel = (\<lambda>w t i j. False),
      TextureManager_getTexture = demo_getTexture,
      TextureManager_removeTexture = demo_removeTexture,
      toLower = map ascii_lower,
      transformRect_contains =
        (\<lambda>b sz x y. 0 \<le> x \<and> x < fst sz \<and> 0 \<le> y \<and> y < snd sz),
      getPosition = (\<lambda>b. (0, 0)),
      mouseLeftWidget = (\<lambda>p w. (p, w)),
      unsigned_to_float = real,
      float_sub = (\<lambda>a b. a - b),
      float_div = (\<lambda>a b. a / b),
      float_to_unsigned = (\<lambda>a. nat \<lfloor>a\<rfloor>),
      ClickableWidget_setProperty = (\<lambda>property value p w. (False, p, w)),
      ClickableWidget_getProperty = (\<lambda>property value p w. (False, value, w))\<rparr>"

text \<open>A world with one image file, 4 by 3 pixels, under the resource path \<^verbatim>\<open>img/\<close>, and
  a freshly constructed Picture.\<close>

definition demo_world :: "demo_manager world" where
  "demo_world =
     \<lparr>textureManager = [(''img/cat.png'', 7, 4, 3)],
      textureData = Map.empty,
      resourcePath = ''img/'',
      outputLog = []\<rparr>"

definition demo_picture :: "(demo_texture, unit) Picture" where
  "demo_picture =
     \<lparr>m_loaded = False, m_size = (0, 0), m_mouseHover = False, m_loadedFilename = [],
      m_texture = (None, 0, 0), inherited = ()\<rparr>"

text \<open>The same Picture and world after \<^verbatim>\<open>load("cat.png")\<close>.\<close>

definition demo_loaded :: "(demo_texture, unit) Picture \<times> demo_manager world" where
  "demo_loaded = snd (load demo_ext ''cat.png'' demo_picture demo_world)"

section \<open>Properties of the Picture widget\<close>

subsection \<open>Runs of the model in the concrete environment\<close>

lemmas demo_defs =
  demo_ext_def demo_world_def demo_picture_def demo_getTexture_def demo_removeTexture_def
  ascii_lower_def

text \<open>Loading the existing file succeeds and creates the texture data at address 7.\<close>

lemma demo_load:
  "load demo_ext ''cat.png'' demo_picture demo_world =
     (True,
      \<lparr>m_loaded = True, m_size = (4, 3), m_mouseHover = False, m_loadedFilename = ''img/cat.png'',
       m_texture = (Some 7, 4, 3), inherited = ()\<rparr>,
      demo_world\<lparr>textureData := [7 \<mapsto> \<lparr>texture = \<lparr>smooth = False\<rparr>\<rparr>]\<rparr>)"
  by (simp add: load_def setSize_def demo_defs)

lemma demo_loaded_eq:
  "demo_loaded =
     (\<lparr>m_loaded = True, m_size = (4, 3), m_mouseHover = False, m_loadedFilename = ''img/cat.png'',
       m_texture = (Some 7, 4, 3), inherited = ()\<rparr>,
      demo_world\<lparr>textureData := [7 \<mapsto> \<lparr>texture = \<lparr>smooth = False\<rparr>\<rparr>]\<rparr>)"
  by (simp add: demo_loaded_def demo_load)

lemma demo_getTexture_cat:
  "TextureManager_getTexture demo_ext demo_world (None, 0, 0) ''img/cat.png'' =
     (True, (Some 7, 4, 3), demo_world\<lparr>textureData := [7 \<mapsto> \<lparr>texture = \<lparr>smooth = False\<rparr>\<rparr>]\<rparr>)"
  by (simp add: demo_defs)

text \<open>Loading a file that does not exist, on the loaded Picture.\<close>

lemma demo_reload:
  "load demo_ext ''dog.png'' (fst demo_loaded) (snd demo_loaded) =
     (False,
      \<lparr>m_loaded = False, m_size = (0, 0), m_mouseHover = False, m_loadedFilename = ''img/dog.png'',
       m_texture = (None, 0, 0), inherited = ()\<rparr>,
      demo_world)"
  by (simp add: demo_loaded_eq load_def setSize_def demo_defs)

text \<open>Property names in the concrete environment, and the texture data of the loaded
  Picture.\<close>

lemma demo_toLower:
  "toLower demo_ext ''Smooth'' = ''smooth''" "toLower demo_ext ''Filename'' = ''filename''"
  by (simp_all add: demo_ext_def ascii_lower_def)

lemma demo_deref:
  "deref_data demo_ext (fst demo_loaded) (snd demo_loaded) = Inr (7, \<lparr>texture = \<lparr>smooth = False\<rparr>\<rparr>)"
  by (simp add: deref_data_def demo_loaded_eq demo_ext_def)

subsection \<open>Loading\<close>

text \<open>
  C2. \<^verbatim>\<open>Picture::load(filename)\<close> returns false for the empty filename and for every
  filename whose texture the texture manager fails to load; it returns true only when the
  texture manager loads the texture successfully. In one equation: the result of \<^verbatim>\<open>load\<close>
  is true exactly when the filename is not empty and the texture manager's \<^verbatim>\<open>getTexture\<close>
  returns true, where \<^verbatim>\<open>getTexture\<close> is called for the resource path followed by the
  filename, after \<^verbatim>\<open>removeTexture\<close> if the Picture still held a texture.
\<close>

theorem load_result:
  "fst (load ext filename p w) =
     (filename \<noteq> [] \<and>
      fst (case (if Texture_getData ext (m_texture p) \<noteq> None
                 then TextureManager_removeTexture ext w (m_texture p)
                 else (m_texture p, w)) of
             (t, w1) \<Rightarrow> TextureManager_getTexture ext w1 t (resourcePath w @ filename)))"
  by (simp add: load_def Let_def split: prod.splits bool.splits)

text \<open>
  C8. Whenever \<^verbatim>\<open>Picture::load(filename)\<close> returns true, the picture's size is the size of
  the loaded texture: width and height are those that \<^verbatim>\<open>getSize\<close> reports for the
  \<^verbatim>\<open>Texture\<close> object as the texture manager's \<^verbatim>\<open>getTexture\<close> has just filled it, each
  converted to \<^verbatim>\<open>float\<close>.
\<close>

theorem load_size:
  assumes "load ext filename p w = (True, p', w')"
      and "(if Texture_getData ext (m_texture p) \<noteq> None
            then TextureManager_removeTexture ext w (m_texture p)
            else (m_texture p, w)) = (t1, w1)"
      and "TextureManager_getTexture ext w1 t1 (resourcePath w @ filename) = (ok, t, w2)"
  shows "m_size p' = (unsigned_to_float ext (fst (Texture_getSize ext w2 t)),
                      unsigned_to_float ext (snd (Texture_getSize ext w2 t)))"
proof -
  from assms(1) have ne: "filename \<noteq> []"
    by (auto simp add: load_def Let_def)
  from assms ne show ?thesis
    by (auto simp add: load_def setSize_def Let_def split: prod.splits bool.splits if_splits)
qed

theorem load_size_witness:
  "load demo_ext ''cat.png'' demo_picture demo_world
     = (True, fst demo_loaded, snd demo_loaded) \<and>
   Texture_getData demo_ext (m_texture demo_picture) = None \<and>
   fst (TextureManager_getTexture demo_ext demo_world (m_texture demo_picture)
          (resourcePath demo_world @ ''cat.png'')) \<and>
   Texture_getSize demo_ext (snd demo_loaded) (Some 7, 4, 3) = (4, 3) \<and>
   m_size (fst demo_loaded) = (4, 3)"
proof -
  have l: "load demo_ext ''cat.png'' demo_picture demo_world
             = (True, fst demo_loaded, snd demo_loaded)"
    by (simp add: demo_load demo_loaded_eq)
  have n: "Texture_getData demo_ext (m_texture demo_picture) = None"
    by (simp add: demo_ext_def demo_picture_def)
  then have r: "(if Texture_getData demo_ext (m_texture demo_picture) \<noteq> None
                 then TextureManager_removeTexture demo_ext demo_world (m_texture demo_picture)
                 else (m_texture demo_picture, demo_world)) = ((None, 0, 0), demo_world)"
    by (simp add: demo_picture_def)
  have g: "TextureManager_getTexture demo_ext demo_world (None, 0, 0)
             (resourcePath demo_world @ ''cat.png'')
           = (True, (Some 7, 4, 3),
              demo_world\<lparr>textureData := [7 \<mapsto> \<lparr>texture = \<lparr>smooth = False\<rparr>\<rparr>]\<rparr>)"
    using demo_getTexture_cat by (simp add: demo_world_def)
  have sz: "Texture_getSize demo_ext v (Some 7, 4, 3) = (4, 3)" for v
    by (simp add: demo_ext_def)
  have c: "unsigned_to_float demo_ext k = real k" for k
    by (simp add: demo_ext_def)
  have t: "m_texture demo_picture = (None, 0, 0)"
    by (simp add: demo_picture_def)
  have n': "Texture_getData demo_ext (None, 0, 0) = None"
    by (simp add: demo_ext_def)
  from load_size [OF l r g] show ?thesis
    by (simp add: l n' g sz c t)
qed

text \<open>
  C9. \<^verbatim>\<open>Picture::load\<close> is not atomic on failure: when \<^verbatim>\<open>load(f)\<close> returns false for a
  non-empty \<open>f\<close>, the picture is unloaded and has size \<open>(0, 0)\<close>, \<^verbatim>\<open>getLoadedFilename\<close>
  returns the resource path followed by \<open>f\<close>, and a texture that was held before the call
  has been passed to the texture manager's \<^verbatim>\<open>removeTexture\<close> (the failed \<^verbatim>\<open>getTexture\<close>
  call started from what \<^verbatim>\<open>removeTexture\<close> left behind).
\<close>

theorem load_failure:
  assumes "filename \<noteq> []"
      and "load ext filename p w = (False, p', w')"
  shows "m_loaded p' = False \<and> m_size p' = (0, 0) \<and>
         getLoadedFilename p' = resourcePath w @ filename \<and>
         (Texture_getData ext (m_texture p) \<noteq> None \<longrightarrow>
            (case TextureManager_removeTexture ext w (m_texture p) of
               (t, w1) \<Rightarrow> snd (TextureManager_getTexture ext w1 t (resourcePath w @ filename)))
            = (m_texture p', w'))"
  using assms
  by (auto simp add: load_def setSize_def Let_def getLoadedFilename_def
        split: prod.splits bool.splits if_splits)

theorem load_failure_witness:
  "''dog.png'' \<noteq> [] \<and>
   getLoadedFilename (fst demo_loaded) = ''img/cat.png'' \<and>
   textureData (snd demo_loaded) 7 \<noteq> None \<and>
   fst (load demo_ext ''dog.png'' (fst demo_loaded) (snd demo_loaded)) = False \<and>
   m_loaded (fst (snd (load demo_ext ''dog.png'' (fst demo_loaded) (snd demo_loaded)))) = False \<and>
   m_size (fst (snd (load demo_ext ''dog.png'' (fst demo_loaded) (snd demo_loaded)))) = (0, 0) \<and>
   getLoadedFilename (fst (snd (load demo_ext ''dog.png'' (fst demo_loaded) (snd demo_loaded))))
     = ''img/dog.png'' \<and>
   textureData (snd (snd (load demo_ext ''dog.png'' (fst demo_loaded) (snd demo_loaded)))) 7 = None"
proof -
  have ne: "''dog.png'' \<noteq> []" by simp
  have old: "getLoadedFilename (fst demo_loaded) = ''img/cat.png''"
            "textureData (snd demo_loaded) 7 \<noteq> None"
    by (simp_all add: demo_loaded_eq getLoadedFilename_def)
  have new: "textureData demo_world 7 = None" "resourcePath (snd demo_loaded) = ''img/''"
    by (simp_all add: demo_world_def demo_loaded_eq)
  from load_failure [OF ne demo_reload] ne old new show ?thesis
    by (simp add: demo_reload)
qed

subsection \<open>Hit test\<close>

text \<open>
  C7. For every point \<open>(x, y)\<close>: on a Picture that is not loaded, \<^verbatim>\<open>mouseOnWidget(x, y)\<close>
  returns false (and changes neither the widget nor the world).
\<close>

theorem mouseOnWidget_unloaded:
  "\<not> m_loaded p \<Longrightarrow> mouseOnWidget ext x y p w = (False, p, w)"
  by (simp add: mouseOnWidget_def)

theorem mouseOnWidget_unloaded_witness:
  "\<not> m_loaded demo_picture \<and>
   mouseOnWidget demo_ext 1 2 demo_picture demo_world = (False, demo_picture, demo_world)"
  using mouseOnWidget_unloaded [of demo_picture demo_ext 1 2 demo_world]
  by (simp add: demo_picture_def)

subsection \<open>Setters on a Picture that is not loaded\<close>

text \<open>
  C4, as stated: on an unloaded Picture, \<^verbatim>\<open>setSize(w, h)\<close> and \<^verbatim>\<open>setSmooth(b)\<close> leave the
  size and the smooth flag unchanged. This fails for \<^verbatim>\<open>setSize\<close>: the freshly constructed
  Picture has size \<open>(0, 0)\<close> and, after \<^verbatim>\<open>setSize(640, 480)\<close>, size \<open>(640, 480)\<close>.
\<close>

theorem setters_unloaded_counterexample:
  "\<not> m_loaded demo_picture \<and>
   m_size demo_picture = (0, 0) \<and>
   m_size (fst (setSize demo_ext 640 480 demo_picture demo_world)) = (640, 480) \<and>
   m_size (fst (setSize demo_ext 640 480 demo_picture demo_world)) \<noteq> m_size demo_picture"
  by (simp add: setSize_def demo_picture_def)

text \<open>
  C4, amended: on an unloaded Picture, \<^verbatim>\<open>setSmooth(b)\<close> changes nothing but the log (one
  warning), and \<^verbatim>\<open>isSmooth()\<close> answers false before and after it; \<^verbatim>\<open>setSize(w, h)\<close> writes
  one warning and does not touch the texture either, but it stores \<open>(w, h)\<close> as the size
  of the widget.
\<close>

theorem setters_unloaded:
  assumes "\<not> m_loaded p"
  shows "setSmooth ext s p w = Inr (TGUI_OUTPUT setSmooth_warning w) \<and>
         isSmooth ext p w = Inr (False, TGUI_OUTPUT isSmooth_warning w) \<and>
         isSmooth ext p (TGUI_OUTPUT setSmooth_warning w)
           = Inr (False, TGUI_OUTPUT isSmooth_warning (TGUI_OUTPUT setSmooth_warning w)) \<and>
         setSize ext width height p w
           = (p\<lparr>m_size := (width, height)\<rparr>, TGUI_OUTPUT setSize_warning w)"
  using assms by (simp add: setSmooth_def isSmooth_def setSize_def)

theorem setters_unloaded_witness:
  "\<not> m_loaded demo_picture \<and>
   setSmooth demo_ext True demo_picture demo_world
     = Inr (demo_world\<lparr>outputLog := [setSmooth_warning]\<rparr>) \<and>
   setSize demo_ext 640 480 demo_picture demo_world
     = (demo_picture\<lparr>m_size := (640, 480)\<rparr>, demo_world\<lparr>outputLog := [setSize_warning]\<rparr>)"
proof -
  have u: "\<not> m_loaded demo_picture" by (simp add: demo_picture_def)
  have l: "TGUI_OUTPUT msg demo_world = demo_world\<lparr>outputLog := [msg]\<rparr>" for msg
    by (simp add: TGUI_OUTPUT_def demo_world_def)
  from setters_unloaded [OF u, of demo_ext True demo_world 640 480] u show ?thesis
    by (simp add: l)
qed

subsection \<open>Properties by name\<close>

text \<open>
  C3, as stated: every failure of a public operation of Picture is communicated through
  the operation's boolean result; in particular \<^verbatim>\<open>setProperty\<close> returns false when the
  value given for the "smooth" property parses as neither true nor false. This fails: on
  the loaded Picture, \<^verbatim>\<open>setProperty("Smooth", "maybe")\<close> returns true; the Picture is
  unchanged and the log has one more line.
\<close>

theorem setProperty_result_counterexample:
  "setProperty demo_ext ''Smooth'' ''maybe'' (fst demo_loaded) (snd demo_loaded)
     = Inr (True, fst demo_loaded, TGUI_OUTPUT smooth_parse_error (snd demo_loaded))"
  by (simp add: setProperty_def demo_toLower)

text \<open>
  C3, amended: the result of \<^verbatim>\<open>setProperty\<close> tells whether the property name matched,
  not whether the value was accepted. For a name that lower-cases to "smooth" and a value
  other than "true", "True", "false" and "False", \<^verbatim>\<open>setProperty\<close> returns true, changes
  nothing and reports the failure by one logged error only; for a name that lower-cases
  to "filename" it returns true with the state that \<^verbatim>\<open>load\<close> leaves, whatever \<^verbatim>\<open>load\<close>
  returned.
\<close>

theorem setProperty_result:
  "(toLower ext property = ''smooth'' \<longrightarrow>
      val \<notin> {''true'', ''True'', ''false'', ''False''} \<longrightarrow>
      setProperty ext property val p w = Inr (True, p, TGUI_OUTPUT smooth_parse_error w)) \<and>
   (toLower ext property = ''filename'' \<longrightarrow>
      setProperty ext property val p w = Inr (True, snd (load ext val p w)))"
  by (simp add: setProperty_def split: prod.splits)

theorem setProperty_result_witness:
  "toLower demo_ext ''Smooth'' = ''smooth'' \<and>
   ''maybe'' \<notin> {''true'', ''True'', ''false'', ''False''} \<and>
   setProperty demo_ext ''Smooth'' ''maybe'' demo_picture demo_world
     = Inr (True, demo_picture, TGUI_OUTPUT smooth_parse_error demo_world) \<and>
   toLower demo_ext ''Filename'' = ''filename'' \<and>
   fst (load demo_ext ''dog.png'' demo_picture demo_world) = False \<and>
   setProperty demo_ext ''Filename'' ''dog.png'' demo_picture demo_world
     = Inr (True, snd (load demo_ext ''dog.png'' demo_picture demo_world))"
proof -
  have v: "''maybe'' \<notin> {''true'', ''True'', ''false'', ''False''}" by simp
  have f: "fst (load demo_ext ''dog.png'' demo_picture demo_world) = False"
    by (simp add: load_def demo_defs)
  from setProperty_result [of demo_ext "''Smooth''" "''maybe''" demo_picture demo_world]
       setProperty_result [of demo_ext "''Filename''" "''dog.png''" demo_picture demo_world]
       v f
  show ?thesis by (simp add: demo_toLower)
qed

text \<open>
  C1, as stated: after a successful \<^verbatim>\<open>setProperty(X, v)\<close>, \<^verbatim>\<open>getProperty(X, value)\<close> sets
  \<open>value\<close> to \<open>v\<close>. This fails for both properties: on the loaded Picture, "True" written
  to "Smooth" is read back as "true"; with the resource path "img/", "cat.png" written to
  "Filename" is read back as "img/cat.png".
\<close>

theorem setProperty_getProperty_counterexample:
  "(case setProperty demo_ext ''Smooth'' ''True'' (fst demo_loaded) (snd demo_loaded) of
      Inl e \<Rightarrow> False
    | Inr (r, p1, w1) \<Rightarrow>
        r \<and> getProperty demo_ext ''Smooth'' [] p1 w1 = Inr (True, ''true'', w1)) \<and>
   ''true'' \<noteq> ''True'' \<and>
   (case setProperty demo_ext ''Filename'' ''cat.png'' demo_picture demo_world of
      Inl e \<Rightarrow> False
    | Inr (r, p1, w1) \<Rightarrow>
        r \<and> getProperty demo_ext ''Filename'' [] p1 w1 = Inr (True, ''img/cat.png'', w1)) \<and>
   ''img/cat.png'' \<noteq> ''cat.png''"
  by (simp add: setProperty_def getProperty_def setSmooth_def isSmooth_def demo_toLower demo_deref
        demo_load getLoadedFilename_def)
    (simp add: demo_loaded_eq deref_data_def demo_ext_def)

lemma load_filename:
  "filename \<noteq> [] \<Longrightarrow> m_loadedFilename (fst (snd (load ext filename p w))) = resourcePath w @ filename"
  by (simp add: load_def setSize_def Let_def split: prod.splits bool.splits)

text \<open>
  C1, amended. "Filename": after \<^verbatim>\<open>setProperty\<close> with a non-empty value \<open>v\<close>,
  \<^verbatim>\<open>getProperty\<close> yields the resource path followed by \<open>v\<close> (so \<open>v\<close> itself when the
  resource path is empty), whether or not the file could be loaded. "Smooth": on a loaded
  Picture whose texture data pointer is valid, after \<^verbatim>\<open>setProperty\<close> with one of "true",
  "True", "false", "False", the Picture is unchanged and \<^verbatim>\<open>getProperty\<close> yields the
  lower-case spelling, "true" or "false" (so \<open>v\<close> itself when \<open>v\<close> is lower-case).
\<close>

theorem setProperty_getProperty:
  "(toLower ext property = ''filename'' \<longrightarrow> val \<noteq> [] \<longrightarrow>
      (case setProperty ext property val p w of
         Inl e \<Rightarrow> False
       | Inr (r, p1, w1) \<Rightarrow>
           r \<and> getProperty ext property old p1 w1 = Inr (True, resourcePath w @ val, w1))) \<and>
   (toLower ext property = ''smooth'' \<longrightarrow> m_loaded p \<longrightarrow> deref_data ext p w = Inr (a, d) \<longrightarrow>
      val \<in> {''true'', ''True'', ''false'', ''False''} \<longrightarrow>
      (case setProperty ext property val p w of
         Inl e \<Rightarrow> False
       | Inr (r, p1, w1) \<Rightarrow>
           r \<and> p1 = p \<and>
           getProperty ext property old p1 w1
             = Inr (True, if val = ''true'' \<or> val = ''True'' then ''true'' else ''false'', w1)))"
proof (intro conjI impI)
  assume f: "toLower ext property = ''filename''" and v: "val \<noteq> []"
  obtain r p1 w1 where l: "load ext val p w = (r, p1, w1)"
    by (cases "load ext val p w") auto
  from load_filename [OF v, of ext p w] l have "m_loadedFilename p1 = resourcePath w @ val"
    by simp
  with f l show "case setProperty ext property val p w of
         Inl e \<Rightarrow> False
       | Inr (r, p1, w1) \<Rightarrow>
           r \<and> getProperty ext property old p1 w1 = Inr (True, resourcePath w @ val, w1)"
    by (simp add: setProperty_def getProperty_def getLoadedFilename_def)
next
  assume s: "toLower ext property = ''smooth''" and l: "m_loaded p"
     and d: "deref_data ext p w = Inr (a, d)"
     and v: "val \<in> {''true'', ''True'', ''false'', ''False''}"
  from d have g: "Texture_getData ext (m_texture p) = Some a"
    by (auto simp add: deref_data_def split: option.splits)
  have d': "deref_data ext p (w\<lparr>textureData := (textureData w)(a \<mapsto> x)\<rparr>) = Inr (a, x)" for x
    by (simp add: deref_data_def g)
  from s l d v d' show "case setProperty ext property val p w of
         Inl e \<Rightarrow> False
       | Inr (r, p1, w1) \<Rightarrow>
           r \<and> p1 = p \<and>
           getProperty ext property old p1 w1
             = Inr (True, if val = ''true'' \<or> val = ''True'' then ''true'' else ''false'', w1)"
    by (auto simp add: setProperty_def getProperty_def setSmooth_def isSmooth_def)
qed

theorem setProperty_getProperty_witness:
  "toLower demo_ext ''Filename'' = ''filename'' \<and> ''dog.png'' \<noteq> [] \<and>
   (case setProperty demo_ext ''Filename'' ''dog.png'' demo_picture demo_world of
      Inl e \<Rightarrow> False
    | Inr (r, p1, w1) \<Rightarrow>
        r \<and> getProperty demo_ext ''Filename'' [] p1 w1 = Inr (True, ''img/dog.png'', w1)) \<and>
   toLower demo_ext ''Smooth'' = ''smooth'' \<and> m_loaded (fst demo_loaded) \<and>
   deref_data demo_ext (fst demo_loaded) (snd demo_loaded)
     = Inr (7, \<lparr>texture = \<lparr>smooth = False\<rparr>\<rparr>) \<and>
   ''True'' \<in> {''true'', ''True'', ''false'', ''False''} \<and>
   (case setProperty demo_ext ''Smooth'' ''True'' (fst demo_loaded) (snd demo_loaded) of
      Inl e \<Rightarrow> False
    | Inr (r, p1, w1) \<Rightarrow>
        r \<and> p1 = fst demo_loaded \<and>
        getProperty demo_ext ''Smooth'' [] p1 w1 = Inr (True, ''true'', w1))"
proof -
  have l: "m_loaded (fst demo_loaded)" by (simp add: demo_loaded_eq)
  have r: "resourcePath demo_world = ''img/''" by (simp add: demo_world_def)
  from setProperty_getProperty [where ext = demo_ext and property = "''Filename''"
         and val = "''dog.png''" and p = demo_picture and w = demo_world and old = "[]"]
       setProperty_getProperty [where ext = demo_ext and property = "''Smooth''"
         and val = "''True''" and p = "fst demo_loaded" and w = "snd demo_loaded"
         and old = "[]" and a = 7 and d = "\<lparr>texture = \<lparr>smooth = False\<rparr>\<rparr>"]
       l
  show ?thesis by (simp add: demo_toLower demo_deref r split: sum.splits prod.splits)
qed

end
